theory Spec2Isabelle
  imports Main "HOL-Library.AList"
begin

section \<open>The 2D segmentation notebook: data model\<close>

text \<open>
  The notebook \<^verbatim>\<open>notebooks/segmentation_2d_pytorch.ipynb\<close> loads an image volume and
  its label volume, cuts one slice out of each, wraps the pair in \<^verbatim>\<open>CustomDataset\<close>
  and hands the dataset to the data managers of the training framework.

  A numpy array is a shape and its elements in row-major order. The element type stays
  a type variable: no property below computes with float32 values.
\<close>

record 'a ndarray =
  shape :: "nat list"
  flat :: "'a list"

datatype error = AssertionError | ValueError | KeyError | IndexError | AttributeError

text \<open>
  Python objects have identity: a name holds a reference, and two names may hold the same
  one. The store is a list of objects; a reference is a position in it. A dict keeps its
  keys in insertion order and maps each to a reference.
\<close>

type_synonym addr = nat

datatype 'a obj = Array "'a ndarray" | Dict "(string \<times> addr) list"

type_synonym 'a heap = "'a obj list"

definition alloc :: "'a obj \<Rightarrow> 'a heap \<Rightarrow> addr \<times> 'a heap" where
  "alloc ob h = (length h, h @ [ob])"

definition get_array :: "'a heap \<Rightarrow> addr \<Rightarrow> 'a ndarray option" where
  "get_array h a =
     (if a < length h then (case h ! a of Array x \<Rightarrow> Some x | Dict kvs \<Rightarrow> None) else None)"

definition get_dict :: "'a heap \<Rightarrow> addr \<Rightarrow> (string \<times> addr) list option" where
  "get_dict h a =
     (if a < length h then (case h ! a of Array x \<Rightarrow> None | Dict kvs \<Rightarrow> Some kvs) else None)"

text \<open>
  What a reader of a sample sees: the dict behind the reference, each key with the array
  its reference holds at that moment (by value).
\<close>

fun read_entries :: "'a heap \<Rightarrow> (string \<times> addr) list \<Rightarrow> (string \<times> 'a ndarray) list option" where
  "read_entries h [] = Some []"
| "read_entries h ((k, a) # kvs) =
     (case get_array h a of
        None \<Rightarrow> None
      | Some x \<Rightarrow> (case read_entries h kvs of None \<Rightarrow> None | Some r \<Rightarrow> Some ((k, x) # r)))"

definition read_sample :: "'a heap \<Rightarrow> addr \<Rightarrow> (string \<times> 'a ndarray) list option" where
  "read_sample h r = (case get_dict h r of None \<Rightarrow> None | Some kvs \<Rightarrow> read_entries h kvs)"

text \<open>
  \<^verbatim>\<open>a.reshape(*newshape)\<close>: numpy raises ValueError unless the new shape has as many
  elements as the array; the elements keep their order.
\<close>

definition reshape :: "'a ndarray \<Rightarrow> nat list \<Rightarrow> error + 'a ndarray" where
  "reshape a newshape =
     (if prod_list newshape = prod_list (shape a)
      then Inr \<lparr>shape = newshape, flat = flat a\<rparr>
      else Inl ValueError)"

section \<open>CustomDataset\<close>

text \<open>
  \<^verbatim>\<open>
  class CustomDataset(AbstractDataset):
      def __init__(self, img, mask, num_samples=1000):
          super().__init__(None, None, None, None)
          self.data = {"data": img.reshape(1, *img.shape), "label": mask.reshape(1, *mask.shape)}
          self.num_samples = num_samples

      def __getitem__(self, index):
          return self.data

      def __len__(self):
          return self.num_samples
  \<close>
  The object has the two fields its methods read: the reference to the sample dict and
  the number of samples. The base class's initializer is called with four \<^verbatim>\<open>None\<close>
  arguments and none of the three methods reads what it stores.
\<close>

record CustomDataset =
  data :: addr
  num_samples :: int

text \<open>
  The constructor allocates the two reshaped arrays and the dict that names them; the
  default of \<^verbatim>\<open>num_samples\<close> is 1000 (\<open>None\<close>: the argument was not given).
\<close>

definition CustomDataset_init ::
  "'a ndarray \<Rightarrow> 'a ndarray \<Rightarrow> int option \<Rightarrow> 'a heap \<Rightarrow> error + (CustomDataset \<times> 'a heap)" where
  "CustomDataset_init img msk num_samples_arg h =
     (case reshape img (1 # shape img) of
        Inl e \<Rightarrow> Inl e
      | Inr img1 \<Rightarrow>
          (case reshape msk (1 # shape msk) of
             Inl e \<Rightarrow> Inl e
           | Inr msk1 \<Rightarrow>
               (let (a1, h1) = alloc (Array img1) h;
                    (a2, h2) = alloc (Array msk1) h1;
                    (d, h3) = alloc (Dict [(''data'', a1), (''label'', a2)]) h2
                in Inr (\<lparr>data = d,
                          num_samples = (case num_samples_arg of None \<Rightarrow> 1000 | Some n \<Rightarrow> n)\<rparr>,
                        h3))))"

text \<open>
  A method takes the store and returns its result with the store it leaves behind, so
  that "no side effect" is a statement about the second component.
\<close>

definition CustomDataset_getitem ::
  "CustomDataset \<Rightarrow> int \<Rightarrow> 'a heap \<Rightarrow> (error + addr) \<times> 'a heap" where
  "CustomDataset_getitem self index h = (Inr (data self), h)"

definition CustomDataset_len :: "CustomDataset \<Rightarrow> 'a heap \<Rightarrow> (error + int) \<times> 'a heap" where
  "CustomDataset_len self h = (Inr (num_samples self), h)"

section \<open>Clients of a sample\<close>

text \<open>
  What the code that receives a sample can do with the reference: read a key
  (\<^verbatim>\<open>sample[k]\<close>), bind a key to another array (\<^verbatim>\<open>sample[k] = v\<close>), and overwrite an
  array in place (\<^verbatim>\<open>a.fill(v)\<close>). Each is the Python or numpy primitive, on the store.
  A reference always leads to an object, so one that does not lead to a dict leads to an
  array: numpy refuses a string as an index with IndexError, and a dict has no attribute
  \<^verbatim>\<open>fill\<close>.
\<close>

definition dict_getitem :: "addr \<Rightarrow> string \<Rightarrow> 'a heap \<Rightarrow> (error + addr) \<times> 'a heap" where
  "dict_getitem r k h =
     (case get_dict h r of
        None \<Rightarrow> (Inl IndexError, h)
      | Some kvs \<Rightarrow> (case map_of kvs k of None \<Rightarrow> (Inl KeyError, h) | Some a \<Rightarrow> (Inr a, h)))"


definition ndarray_fill :: "addr \<Rightarrow> 'a \<Rightarrow> 'a heap \<Rightarrow> (error + unit) \<times> 'a heap" where
  "ndarray_fill r v h =
     (case get_array h r of
        None \<Rightarrow> (Inl AttributeError, h)
      | Some a \<Rightarrow> (Inr (), h[r := Array \<lparr>shape = shape a, flat = map (\<lambda>x. v) (flat a)\<rparr>]))"

section \<open>Loading the volumes\<close>

text \<open>
  \<^verbatim>\<open>
  img = sitk.GetArrayFromImage(sitk.ReadImage(img_file))
  img = img.astype(np.float32)
  mask = mask = sitk.GetArrayFromImage(sitk.ReadImage(mask_file))
  mask = mask.astype(np.float32)

  assert mask.shape == img.shape
  print(img.shape)
  \<close>
  The two arrays the image library hands back are the arguments, and so are the two
  conversions to float32 (elementwise, the shape kept). The cell returns the two
  converted arrays and the lines it printed, or the error that stopped it.
\<close>

definition astype :: "('b \<Rightarrow> 'a) \<Rightarrow> 'b ndarray \<Rightarrow> 'a ndarray" where
  "astype f a = \<lparr>shape = shape a, flat = map f (flat a)\<rparr>"

definition load_volumes ::
  "('b \<Rightarrow> 'a) \<Rightarrow> ('c \<Rightarrow> 'a) \<Rightarrow> 'b ndarray \<Rightarrow> 'c ndarray
     \<Rightarrow> error + ('a ndarray \<times> 'a ndarray \<times> nat list list)" where
  "load_volumes to_f32 to_f32' raw_img raw_mask =
     (let img = astype to_f32 raw_img;
          msk = astype to_f32' raw_mask
      in if shape msk = shape img then Inr (img, msk, [shape img]) else Inl AssertionError)"

section \<open>The transform pipeline\<close>

text \<open>
  \<^verbatim>\<open>
  transforms = Compose([
      RandomCropTransform((150, 150), label_key="label"),
      ResizeTransform((224, 224), label_key="label"),
      ContrastAugmentationTransform(),
      MeanStdNormalizationTransform(mean=[img_slice.mean()], std=[img_slice.std()])])
  \<close>
  The notebook only declares the pipeline: the four stage objects with their arguments,
  in a list. The mean and the standard deviation of the slice are floating-point
  reductions and are taken as the two arguments of the declaration.
\<close>

datatype 'a transform =
    RandomCropTransform "nat \<times> nat" string
  | ResizeTransform "nat \<times> nat" string
  | ContrastAugmentationTransform
  | MeanStdNormalizationTransform "'a list" "'a list"

definition transforms :: "'a \<Rightarrow> 'a \<Rightarrow> 'a transform list" where
  "transforms img_slice_mean img_slice_std =
     [RandomCropTransform (150, 150) ''label'',
      ResizeTransform (224, 224) ''label'',
      ContrastAugmentationTransform,
      MeanStdNormalizationTransform [img_slice_mean] [img_slice_std]]"

text \<open>
  A sample as a stage sees it: the dict by value, key by key in insertion order.
\<close>

type_synonym 'a sample = "(string \<times> 'a ndarray) list"

text \<open>
  Modelled from the spec: the numeric kernels of the augmentation library (the
  interpolation of the resize, the contrast adjustment, float subtraction and division)
  are not under src/. They are the fields of one record, given to every stage.
  \<open>interp_data\<close> and \<open>interp_label\<close> give the value of a resized plane at a position, from
  the plane, its size and the target size; \<open>adjust\<close> maps one element, given the drawn
  factor and the whole image.
\<close>

record 'a kernels =
  interp_data :: "nat \<times> nat \<Rightarrow> nat \<times> nat \<Rightarrow> 'a list \<Rightarrow> nat \<times> nat \<Rightarrow> 'a"
  interp_label :: "nat \<times> nat \<Rightarrow> nat \<times> nat \<Rightarrow> 'a list \<Rightarrow> nat \<times> nat \<Rightarrow> 'a"
  adjust :: "'a \<Rightarrow> 'a list \<Rightarrow> 'a \<Rightarrow> 'a"
  fsub :: "'a \<Rightarrow> 'a \<Rightarrow> 'a"
  fdiv :: "'a \<Rightarrow> 'a \<Rightarrow> 'a"

text \<open>
  Modelled from the spec: the random source of the two randomized stages is not under
  src/ and is not seeded by the notebook. One application of the pipeline reads its
  draws from this record: two raw numbers for the crop position and a contrast factor.
\<close>

record 'a draws =
  crop_draw :: "nat \<times> nat"
  contrast_draw :: 'a

text \<open>
  Modelled from the spec: array slicing of the augmentation library, not under src/.
  A sample array has the shape (channels, height, width); its \<open>c\<close> planes of \<open>sz\<close>
  elements each are cut out of the row-major elements.
\<close>

definition planes :: "nat \<Rightarrow> nat \<Rightarrow> 'a list \<Rightarrow> 'a list list" where
  "planes c sz xs = map (\<lambda>p. take sz (drop (p * sz) xs)) [0..<c]"

text \<open>
  Modelled from the spec: the spatial crop, not under src/. The window of \<open>ch\<close> rows and
  \<open>cw\<close> columns whose corner is \<open>(oy, ox)\<close>, row by row, out of a plane of width \<open>w\<close>.
\<close>

fun crop_plane :: "nat \<Rightarrow> nat \<times> nat \<Rightarrow> nat \<times> nat \<Rightarrow> 'a list \<Rightarrow> 'a list" where
  "crop_plane w (ch, cw) (oy, ox) plane =
     concat (map (\<lambda>y. take cw (drop ((oy + y) * w + ox) plane)) [0..<ch])"

text \<open>
  Modelled from the spec: the crop of every plane of an array, not under src/. The
  specification gives a result where the window lies inside the array ("crop size \<open>\<le>\<close>
  input size") and says nothing elsewhere: \<open>None\<close>.
\<close>

fun crop_array :: "nat \<times> nat \<Rightarrow> nat \<times> nat \<Rightarrow> 'a ndarray \<Rightarrow> 'a ndarray option" where
  "crop_array (ch, cw) (oy, ox) a =
     (case shape a of
        [c, h, w] \<Rightarrow>
          (if oy + ch \<le> h \<and> ox + cw \<le> w
           then Some \<lparr>shape = [c, ch, cw],
                      flat = concat (map (crop_plane w (ch, cw) (oy, ox)) (planes c (h * w) (flat a)))\<rparr>
           else None)
      | _ \<Rightarrow> None)"

text \<open>
  Modelled from the spec: the random choice of the crop position, not under src/: any
  corner that keeps the window inside an input of size \<open>(h, w)\<close>, here the raw draw
  reduced to that range.
\<close>

fun crop_offsets :: "nat \<times> nat \<Rightarrow> nat \<times> nat \<Rightarrow> nat \<times> nat \<Rightarrow> (nat \<times> nat) option" where
  "crop_offsets (ch, cw) (h, w) (ry, rx) =
     (if ch \<le> h \<and> cw \<le> w then Some (ry mod (h - ch + 1), rx mod (w - cw + 1)) else None)"

text \<open>
  Modelled from the spec: the "deterministic resize back to a fixed target resolution",
  not under src/. Every plane is resampled to the target size with the interpolation
  kernel; no draw is read.
\<close>

fun resize_array ::
  "(nat \<times> nat \<Rightarrow> nat \<times> nat \<Rightarrow> 'a list \<Rightarrow> nat \<times> nat \<Rightarrow> 'a) \<Rightarrow> nat \<times> nat \<Rightarrow> 'a ndarray
     \<Rightarrow> 'a ndarray option" where
  "resize_array itp (th, tw) a =
     (case shape a of
        [c, h, w] \<Rightarrow>
          Some \<lparr>shape = [c, th, tw],
                flat = concat (map (\<lambda>pl. map (itp (h, w) (th, tw) pl) (List.product [0..<th] [0..<tw]))
                                   (planes c (h * w) (flat a)))\<rparr>
      | _ \<Rightarrow> None)"

text \<open>
  Modelled from the spec: the "normalization subtracting a supplied mean and dividing by
  a supplied standard deviation", not under src/: channel by channel, one mean and one
  standard deviation for each channel.
\<close>

definition normalize_array ::
  "('a \<Rightarrow> 'a \<Rightarrow> 'a) \<Rightarrow> ('a \<Rightarrow> 'a \<Rightarrow> 'a) \<Rightarrow> 'a list \<Rightarrow> 'a list \<Rightarrow> 'a ndarray \<Rightarrow> 'a ndarray option" where
  "normalize_array sub dv means stds a =
     (case shape a of
        [c, h, w] \<Rightarrow>
          (if length means = c \<and> length stds = c
           then Some \<lparr>shape = [c, h, w],
                      flat = concat (map (\<lambda>(pl, m, s). map (\<lambda>x. dv (sub x m) s) pl)
                                         (zip (planes c (h * w) (flat a)) (zip means stds)))\<rparr>
           else None)
      | _ \<Rightarrow> None)"

text \<open>
  Modelled from the spec: what each stage does to a sample (section 4.2 of the
  specification); the stage classes are not under src/. The crop reads one position and
  applies it to the image and to the entry under the label key; the resize resamples both;
  the contrast adjustment and the normalization change the image only. A sample without
  the entries a stage reads has no result in the specification: \<open>None\<close>.
\<close>

fun transform_call :: "'a kernels \<Rightarrow> 'a draws \<Rightarrow> 'a transform \<Rightarrow> 'a sample \<Rightarrow> 'a sample option" where
  "transform_call K R (RandomCropTransform crop_size label_key) s =
     (case (map_of s ''data'', map_of s label_key) of
        (Some img, Some lab) \<Rightarrow>
          (case shape img of
             [c, h, w] \<Rightarrow>
               (case crop_offsets crop_size (h, w) (crop_draw R) of
                  None \<Rightarrow> None
                | Some off \<Rightarrow>
                    (case (crop_array crop_size off img, crop_array crop_size off lab) of
                       (Some img', Some lab') \<Rightarrow>
                         Some (AList.update label_key lab' (AList.update ''data'' img' s))
                     | _ \<Rightarrow> None))
           | _ \<Rightarrow> None)
      | _ \<Rightarrow> None)"
| "transform_call K R (ResizeTransform target_size label_key) s =
     (case (map_of s ''data'', map_of s label_key) of
        (Some img, Some lab) \<Rightarrow>
          (case (resize_array (interp_data K) target_size img,
                 resize_array (interp_label K) target_size lab) of
             (Some img', Some lab') \<Rightarrow>
               Some (AList.update label_key lab' (AList.update ''data'' img' s))
           | _ \<Rightarrow> None)
      | _ \<Rightarrow> None)"
| "transform_call K R ContrastAugmentationTransform s =
     (case map_of s ''data'' of
        Some img \<Rightarrow>
          Some (AList.update ''data''
                  \<lparr>shape = shape img, flat = map (adjust K (contrast_draw R) (flat img)) (flat img)\<rparr> s)
      | None \<Rightarrow> None)"
| "transform_call K R (MeanStdNormalizationTransform means stds) s =
     (case map_of s ''data'' of
        Some img \<Rightarrow>
          (case normalize_array (fsub K) (fdiv K) means stds img of
             Some img' \<Rightarrow> Some (AList.update ''data'' img' s)
           | None \<Rightarrow> None)
      | None \<Rightarrow> None)"

text \<open>
  Modelled from the spec: \<^verbatim>\<open>Compose\<close> is not under src/; "stages compose in a fixed
  declared order into a single pipeline": the first stage of the list runs first.
\<close>

fun Compose_call :: "'a kernels \<Rightarrow> 'a draws \<Rightarrow> 'a transform list \<Rightarrow> 'a sample \<Rightarrow> 'a sample option" where
  "Compose_call K R [] s = Some s"
| "Compose_call K R (t # ts) s =
     (case transform_call K R t s of None \<Rightarrow> None | Some s' \<Rightarrow> Compose_call K R ts s')"

section \<open>The data managers\<close>

text \<open>
  \<^verbatim>\<open>
  manager_val = BaseDataManager(dataset_val, params.nested_get("batch_size"),
                                transforms=transforms,
                                sampler_cls=SequentialSampler,
                                n_process_augmentation=4)
  \<close>
  The notebook constructs the managers and hands them to the experiment; the arguments
  of the constructor are the fields, in the order of the call.
\<close>

datatype sampler_cls = RandomSampler | SequentialSampler

datatype 'a BaseDataManager =
  BaseDataManager CustomDataset nat "'a transform list" sampler_cls nat

text \<open>
  Modelled from the spec: the batching of \<^verbatim>\<open>BaseDataManager\<close> is not under src/. The
  indices of a pass are cut into consecutive batches of \<open>batch_size\<close>; the last batch
  holds what is left. The specification says nothing for a batch size of 0: no batch.
\<close>

function batches_of :: "nat \<Rightarrow> 'b list \<Rightarrow> 'b list list" where
  "batches_of bs xs = (if bs = 0 \<or> xs = [] then [] else take bs xs # batches_of bs (drop bs xs))"
  by pat_completeness auto
termination
  by (relation "measure (\<lambda>(bs, xs). length xs)") auto

declare batches_of.simps [simp del]

text \<open>
  Modelled from the spec: the samplers are not under src/. "Sequential sampling yields
  indices in ascending order"; random sampling shuffles the same indices without
  replacement, the shuffle being the draw of the pass.
\<close>

definition sampler_indices :: "sampler_cls \<Rightarrow> (int list \<Rightarrow> int list) \<Rightarrow> int \<Rightarrow> int list" where
  "sampler_indices sc shuffle n =
     (case sc of SequentialSampler \<Rightarrow> [0..n - 1] | RandomSampler \<Rightarrow> shuffle [0..n - 1])"

text \<open>
  Modelled from the spec: the index batches of one pass over the manager's dataset,
  whose length is what \<^verbatim>\<open>__len__\<close> returns.
\<close>

fun batch_indices :: "(int list \<Rightarrow> int list) \<Rightarrow> 'a BaseDataManager \<Rightarrow> 'a heap \<Rightarrow> int list list" where
  "batch_indices shuffle (BaseDataManager dataset batch_size tfs sc n_process_augmentation) h =
     (case fst (CustomDataset_len dataset h) of
        Inl e \<Rightarrow> []
      | Inr n \<Rightarrow> batches_of batch_size (sampler_indices sc shuffle n))"

text \<open>
  Modelled from the spec: one sample of a batch: the dataset's item at the index, read
  from the store and sent through the pipeline with the draws of that index.
\<close>

definition fetch_sample ::
  "'a kernels \<Rightarrow> (int \<Rightarrow> 'a draws) \<Rightarrow> 'a transform list \<Rightarrow> CustomDataset \<Rightarrow> 'a heap \<Rightarrow> int
     \<Rightarrow> 'a sample option" where
  "fetch_sample K R tfs dataset h i =
     (case fst (CustomDataset_getitem dataset i h) of
        Inl e \<Rightarrow> None
      | Inr r \<Rightarrow> (case read_sample h r of None \<Rightarrow> None | Some s \<Rightarrow> Compose_call K (R i) tfs s))"

text \<open>
  Modelled from the spec: the batches of one pass, "each being \<open>batch_size\<close>
  independently transformed samples"; a batch is the list of its samples.
\<close>

fun batches ::
  "'a kernels \<Rightarrow> (int \<Rightarrow> 'a draws) \<Rightarrow> (int list \<Rightarrow> int list) \<Rightarrow> 'a BaseDataManager \<Rightarrow> 'a heap
     \<Rightarrow> 'a sample option list list" where
  "batches K R shuffle (BaseDataManager dataset batch_size tfs sc n_process_augmentation) h =
     map (map (fetch_sample K R tfs dataset h))
       (batch_indices shuffle (BaseDataManager dataset batch_size tfs sc n_process_augmentation) h)"


section \<open>A small dataset to run the definitions on\<close>

text \<open>
  A 192 x 192 image and label pair (constant, as a synthetic test would build it) wrapped
  with \<^verbatim>\<open>num_samples=10\<close> in an empty store, and a 2 x 2 pair for the places where the
  elements matter.
\<close>

definition synthetic_img :: "int ndarray" where
  "synthetic_img = \<lparr>shape = [192, 192], flat = replicate (192 * 192) 7\<rparr>"

definition synthetic_mask :: "int ndarray" where
  "synthetic_mask = \<lparr>shape = [192, 192], flat = replicate (192 * 192) 1\<rparr>"

definition synthetic_dataset :: CustomDataset where
  "synthetic_dataset = \<lparr>data = 2, num_samples = 10\<rparr>"

definition synthetic_heap :: "int heap" where
  "synthetic_heap =
     [Array \<lparr>shape = [1, 192, 192], flat = replicate (192 * 192) 7\<rparr>,
      Array \<lparr>shape = [1, 192, 192], flat = replicate (192 * 192) 1\<rparr>,
      Dict [(''data'', 0), (''label'', 1)]]"

definition small_img :: "int ndarray" where
  "small_img = \<lparr>shape = [2, 2], flat = [10, 20, 30, 40]\<rparr>"

definition small_mask :: "int ndarray" where
  "small_mask = \<lparr>shape = [2, 2], flat = [0, 1, 1, 3]\<rparr>"

definition small_dataset :: CustomDataset where
  "small_dataset = \<lparr>data = 2, num_samples = 10\<rparr>"

definition small_heap :: "int heap" where
  "small_heap =
     [Array \<lparr>shape = [1, 2, 2], flat = [10, 20, 30, 40]\<rparr>,
      Array \<lparr>shape = [1, 2, 2], flat = [0, 1, 1, 3]\<rparr>,
      Dict [(''data'', 0), (''label'', 1)]]"


text \<open>
  The sample of the 192 x 192 dataset as the pipeline receives it, integer kernels
  (nearest-neighbour resampling, integer arithmetic) and one set of draws, to run the
  pipeline on.
\<close>

definition synthetic_sample :: "int sample" where
  "synthetic_sample =
     [(''data'', \<lparr>shape = [1, 192, 192], flat = replicate (192 * 192) 7\<rparr>),
      (''label'', \<lparr>shape = [1, 192, 192], flat = replicate (192 * 192) 1\<rparr>)]"

fun nearest :: "nat \<times> nat \<Rightarrow> nat \<times> nat \<Rightarrow> int list \<Rightarrow> nat \<times> nat \<Rightarrow> int" where
  "nearest (h, w) (th, tw) plane (y, x) = plane ! ((y * h div th) * w + x * w div tw)"

definition int_kernels :: "int kernels" where
  "int_kernels =
     \<lparr>interp_data = nearest, interp_label = nearest,
      adjust = (\<lambda>factor plane x. factor * x), fsub = (\<lambda>x y. x - y), fdiv = (\<lambda>x y. x div y)\<rparr>"

definition example_draws :: "int draws" where
  "example_draws = \<lparr>crop_draw = (1000, 17), contrast_draw = 2\<rparr>"

section \<open>Properties of CustomDataset\<close>

lemma CustomDataset_init_eq:
  "CustomDataset_init img msk ns h =
     Inr (\<lparr>data = length h + 2, num_samples = (case ns of None \<Rightarrow> 1000 | Some n \<Rightarrow> n)\<rparr>,
          h @ [Array \<lparr>shape = 1 # shape img, flat = flat img\<rparr>,
               Array \<lparr>shape = 1 # shape msk, flat = flat msk\<rparr>,
               Dict [(''data'', length h), (''label'', length h + 1)]])"
  by (simp add: CustomDataset_init_def reshape_def alloc_def)

text \<open>
  C3. For every integer \<open>n\<close>, a dataset constructed with \<^verbatim>\<open>num_samples = n\<close> has
  length \<open>n\<close>: the constructor succeeds, and \<^verbatim>\<open>__len__\<close> returns exactly the value
  given to the constructor and leaves the store as it is.
\<close>

theorem CustomDataset_len_is_num_samples:
  "\<exists>ds h'. CustomDataset_init img msk (Some n) h = Inr (ds, h')
     \<and> CustomDataset_len ds h' = (Inr n, h')"
  by (simp add: CustomDataset_init_eq CustomDataset_len_def)

lemma read_after_init:
  "read_sample (h @ [Array x, Array y, Dict [(''data'', length h), (''label'', Suc (length h))]])
     (Suc (Suc (length h))) = Some [(''data'', x), (''label'', y)]"
  by (simp add: read_sample_def get_dict_def get_array_def nth_append)

lemma small_init:
  "CustomDataset_init small_img small_mask (Some 10) [] = Inr (small_dataset, small_heap)"
  by (simp add: CustomDataset_init_eq small_img_def small_mask_def small_dataset_def small_heap_def)

lemma synthetic_init:
  "CustomDataset_init synthetic_img synthetic_mask (Some 10) [] =
     Inr (synthetic_dataset, synthetic_heap)"
  by (simp add: CustomDataset_init_eq synthetic_img_def synthetic_mask_def
      synthetic_dataset_def synthetic_heap_def)


text \<open>
  C1. For every valid index \<open>i\<close> (\<open>0 \<le> i < length()\<close>), \<^verbatim>\<open>__getitem__\<close> returns the one
  stored sample: the dict whose image and label arrays are, by value, the arrays stored
  at construction, whatever \<open>i\<close> is; any two valid indices give the same result. In
  particular this holds for the ten indices of a dataset built with \<^verbatim>\<open>num_samples=10\<close>.
\<close>

theorem getitem_returns_stored_sample:
  assumes "CustomDataset_init img msk ns h = Inr (ds, h')"
      and "CustomDataset_len ds h' = (Inr n, h')"
      and "0 \<le> i" and "i < n" and "0 \<le> j" and "j < n"
  shows "CustomDataset_getitem ds i h' = (Inr (data ds), h')
       \<and> read_sample h' (data ds) =
           Some [(''data'', \<lparr>shape = 1 # shape img, flat = flat img\<rparr>),
                 (''label'', \<lparr>shape = 1 # shape msk, flat = flat msk\<rparr>)]
       \<and> CustomDataset_getitem ds j h' = CustomDataset_getitem ds i h'"
  using assms by (auto simp: CustomDataset_init_eq CustomDataset_getitem_def read_after_init)

theorem getitem_returns_stored_sample_witness:
  "CustomDataset_init synthetic_img synthetic_mask (Some 10) [] =
     Inr (synthetic_dataset, synthetic_heap)
   \<and> CustomDataset_len synthetic_dataset synthetic_heap = (Inr 10, synthetic_heap)
   \<and> (0::int) \<le> 7 \<and> (7::int) < 10 \<and> (0::int) \<le> 3 \<and> (3::int) < 10
   \<and> CustomDataset_getitem synthetic_dataset 7 synthetic_heap = (Inr 2, synthetic_heap)
   \<and> read_sample synthetic_heap 2 =
        Some [(''data'', \<lparr>shape = [1, 192, 192], flat = replicate (192 * 192) 7\<rparr>),
              (''label'', \<lparr>shape = [1, 192, 192], flat = replicate (192 * 192) 1\<rparr>)]
   \<and> CustomDataset_getitem synthetic_dataset 3 synthetic_heap =
       CustomDataset_getitem synthetic_dataset 7 synthetic_heap"
proof -
  have l: "CustomDataset_len synthetic_dataset synthetic_heap = (Inr 10, synthetic_heap)"
    by (simp add: CustomDataset_len_def synthetic_dataset_def)
  have d: "data synthetic_dataset = 2"
    by (simp add: synthetic_dataset_def)
  from getitem_returns_stored_sample [OF synthetic_init l, of 7 3] synthetic_init l d
  show ?thesis
    by (simp add: synthetic_img_def synthetic_mask_def)
qed

text \<open>
  C2, as the specification states it: \<^verbatim>\<open>__getitem__\<close> raises an IndexError exactly when
  the index is below 0 or at least \<open>length()\<close>. The code has no bounds check: on the
  dataset of ten samples, the indices \<open>-1\<close> and \<open>10\<close> return the stored sample and raise
  nothing.
\<close>

theorem getitem_out_of_range_counterexample:
  "CustomDataset_init small_img small_mask (Some 10) [] = Inr (small_dataset, small_heap)
   \<and> CustomDataset_len small_dataset small_heap = (Inr 10, small_heap)
   \<and> CustomDataset_getitem small_dataset (- 1) small_heap = (Inr 2, small_heap)
   \<and> CustomDataset_getitem small_dataset 10 small_heap = (Inr 2, small_heap)
   \<and> fst (CustomDataset_getitem small_dataset (- 1) small_heap) \<noteq> Inl IndexError
   \<and> fst (CustomDataset_getitem small_dataset 10 small_heap) \<noteq> Inl IndexError"
  by (simp add: small_init CustomDataset_len_def CustomDataset_getitem_def small_dataset_def)

text \<open>
  C2, amended. \<^verbatim>\<open>__getitem__\<close> has no error path at all and no side effect: for every
  index, inside \<open>[0, length())\<close> or outside it, no error is raised and the store is left
  as it was.
\<close>

theorem getitem_never_raises:
  "(\<forall>e. fst (CustomDataset_getitem ds i h) \<noteq> Inl e)
   \<and> snd (CustomDataset_getitem ds i h) = h"
  by (simp add: CustomDataset_getitem_def)

text \<open>
  C5. The sample the dataset stores holds the image and the label each reshaped with a
  leading channel axis of size 1: for an image of shape \<open>s\<close> the stored array has shape
  \<open>1 # s\<close> and the same elements, and likewise for the label; every index returns the
  reference to this one sample.
\<close>

theorem stored_sample_has_channel_axis:
  "\<exists>ds h' a1 a2 x y.
     CustomDataset_init img msk ns h = Inr (ds, h')
     \<and> get_dict h' (data ds) = Some [(''data'', a1), (''label'', a2)]
     \<and> get_array h' a1 = Some x \<and> shape x = 1 # shape img \<and> flat x = flat img
     \<and> get_array h' a2 = Some y \<and> shape y = 1 # shape msk \<and> flat y = flat msk
     \<and> (\<forall>i. CustomDataset_getitem ds i h' = (Inr (data ds), h'))"
  by (simp add: CustomDataset_init_eq CustomDataset_getitem_def get_dict_def get_array_def nth_append)

text \<open>
  C9. \<^verbatim>\<open>__getitem__\<close> is total over the integers: for every index, negative ones and
  ones at or beyond \<^verbatim>\<open>num_samples\<close> included, it checks nothing and returns the
  reference to the stored sample dict, without an error.
\<close>

theorem getitem_total:
  "CustomDataset_getitem ds i h = (Inr (data ds), h)"
  by (simp add: CustomDataset_getitem_def)




text \<open>
  The same for a mutation one level down: an array of the sample overwritten in place
  is the array every later access reads.
\<close>

lemma ndarray_fill_seen_by_every_index:
  assumes "CustomDataset_getitem ds i h = (Inr r, h1)"
      and "dict_getitem r k h1 = (Inr a, h1')"
      and "ndarray_fill a v h1' = (Inr (), h2)"
      and "CustomDataset_getitem ds j h2 = (Inr r', h3)"
  shows "\<exists>x. get_array h1 a = Some x \<and> r = data ds \<and> r' = data ds \<and> h3 = h2
       \<and> dict_getitem r' k h3 = (Inr a, h3)
       \<and> get_array h3 a = Some \<lparr>shape = shape x, flat = map (\<lambda>x. v) (flat x)\<rparr>"
proof -
  from assms(1,4) have r: "r = data ds" "r' = r" "h1 = h" "h3 = h2"
    by (simp_all add: CustomDataset_getitem_def)
  from assms(2) obtain kvs where d: "get_dict h1 r = Some kvs" "map_of kvs k = Some a" "h1' = h1"
    by (auto simp: dict_getitem_def split: option.splits)
  from assms(3) d(3) obtain x where x: "get_array h1 a = Some x"
    and h2: "h2 = h1[a := Array \<lparr>shape = shape x, flat = map (\<lambda>x. v) (flat x)\<rparr>]"
    by (auto simp: ndarray_fill_def split: option.splits)
  from d(1) x have ne: "a \<noteq> r"
    by (auto simp: get_dict_def get_array_def split: if_splits obj.splits)
  from d(1) ne h2 have "get_dict h2 r = Some kvs"
    by (auto simp: get_dict_def split: if_splits)
  with d(2) have g: "dict_getitem r k h2 = (Inr a, h2)"
    by (simp add: dict_getitem_def)
  from x h2 have "get_array h2 a = Some \<lparr>shape = shape x, flat = map (\<lambda>x. v) (flat x)\<rparr>"
    by (auto simp: get_array_def split: if_splits)
  with g x r show ?thesis
    by simp
qed

section \<open>Properties of the loading cell\<close>

text \<open>
  C4. Loading the volume pair checks one condition, the equality of the two shapes: the
  cell stops with the assertion's error exactly when the shapes differ, it returns the
  pair exactly when they are equal, and it has no other error of its own.
\<close>

theorem load_volumes_checks_shapes_only:
  "(load_volumes f g raw_img raw_mask = Inl AssertionError) = (shape raw_mask \<noteq> shape raw_img)
   \<and> (load_volumes f g raw_img raw_mask = Inr (astype f raw_img, astype g raw_mask, [shape raw_img]))
       = (shape raw_mask = shape raw_img)
   \<and> (\<forall>e. load_volumes f g raw_img raw_mask = Inl e \<longrightarrow> e = AssertionError)"
  by (simp add: load_volumes_def astype_def Let_def)

theorem load_volumes_checks_shapes_only_witness:
  "load_volumes (\<lambda>x. x) int \<lparr>shape = [2, 2], flat = [1, 2, 3, 4::int]\<rparr>
      \<lparr>shape = [4], flat = [0, 1, 1, 0::nat]\<rparr> = Inl AssertionError
   \<and> shape \<lparr>shape = [4], flat = [0, 1, 1, 0::nat]\<rparr> \<noteq> shape \<lparr>shape = [2, 2], flat = [1, 2, 3, 4::int]\<rparr>"
  using load_volumes_checks_shapes_only [of "\<lambda>x. x" int "\<lparr>shape = [2, 2], flat = [1, 2, 3, 4::int]\<rparr>"
      "\<lparr>shape = [4], flat = [0, 1, 1, 0::nat]\<rparr>"]
  by simp

section \<open>Properties of the transform pipeline\<close>

lemma Compose_transforms:
  "Compose_call K R (transforms m sd) s =
     Option.bind (Option.bind (Option.bind
       (transform_call K R (RandomCropTransform (150, 150) ''label'') s)
       (transform_call K R (ResizeTransform (224, 224) ''label'')))
       (transform_call K R ContrastAugmentationTransform))
       (transform_call K R (MeanStdNormalizationTransform [m] [sd]))"
  by (simp add: transforms_def split: option.splits)

lemma map_of_sample_update:
  "map_of (AList.update ''label'' lab' (AList.update ''data'' img' s)) ''data'' = Some img'"
  "map_of (AList.update ''label'' lab' (AList.update ''data'' img' s)) ''label'' = Some lab'"
  by (simp_all add: update_conv')

lemma map_of_data_update:
  "map_of (AList.update ''data'' img' s) ''data'' = Some img'"
  "map_of (AList.update ''data'' img' s) ''label'' = map_of s ''label''"
  by (simp_all add: update_conv')

lemma crop_stage:
  assumes "map_of s ''data'' = Some img" "map_of s ''label'' = Some lab"
    "shape img = [c, h, w]" "shape lab = [c, h, w]" "150 \<le> h" "150 \<le> w"
  shows "\<exists>off img' lab'. crop_offsets (150, 150) (h, w) (crop_draw R) = Some off
     \<and> crop_array (150, 150) off img = Some img' \<and> crop_array (150, 150) off lab = Some lab'
     \<and> shape img' = [c, 150, 150] \<and> shape lab' = [c, 150, 150]
     \<and> transform_call K R (RandomCropTransform (150, 150) ''label'') s
         = Some (AList.update ''label'' lab' (AList.update ''data'' img' s))"
proof -
  obtain ry rx where r: "crop_draw R = (ry, rx)" by (cases "crop_draw R")
  let ?oy = "ry mod (h - 150 + 1)" and ?ox = "rx mod (w - 150 + 1)"
  have o: "crop_offsets (150, 150) (h, w) (crop_draw R) = Some (?oy, ?ox)"
    using assms(5,6) by (simp add: r)
  have "?oy < h - 150 + 1" "?ox < w - 150 + 1" by simp_all
  with assms(5,6) have b: "?oy + 150 \<le> h" "?ox + 150 \<le> w" by linarith+
  from b assms(3,4) obtain img' lab' where
    c: "crop_array (150, 150) (?oy, ?ox) img = Some img'" "crop_array (150, 150) (?oy, ?ox) lab = Some lab'"
    "shape img' = [c, 150, 150]" "shape lab' = [c, 150, 150]"
    by simp
  with o assms(1-3) show ?thesis by simp
qed

lemma resize_stage:
  assumes "map_of s ''data'' = Some img" "map_of s ''label'' = Some lab"
    "shape img = [c, h, w]" "shape lab = [c, h, w]"
  shows "\<exists>s' img' lab'. transform_call K R (ResizeTransform (th, tw) ''label'') s = Some s'
     \<and> map_of s' ''data'' = Some img' \<and> map_of s' ''label'' = Some lab'
     \<and> shape img' = [c, th, tw] \<and> shape lab' = [c, th, tw]"
  using assms by (simp add: map_of_sample_update)

lemma contrast_stage:
  assumes "map_of s ''data'' = Some img" "map_of s ''label'' = Some lab"
    "shape img = [c, h, w]"
  shows "\<exists>s' img'. transform_call K R ContrastAugmentationTransform s = Some s'
     \<and> map_of s' ''data'' = Some img' \<and> map_of s' ''label'' = Some lab
     \<and> shape img' = [c, h, w]"
  using assms by (simp add: map_of_data_update)

lemma normalize_stage:
  assumes "map_of s ''data'' = Some img" "map_of s ''label'' = Some lab"
    "shape img = [1, h, w]"
  shows "\<exists>s' img'. transform_call K R (MeanStdNormalizationTransform [m] [sd]) s = Some s'
     \<and> map_of s' ''data'' = Some img' \<and> map_of s' ''label'' = Some lab
     \<and> shape img' = [1, h, w]"
  using assms by (simp add: map_of_data_update normalize_array_def)

lemma synthetic_sample_entries:
  "map_of synthetic_sample ''data'' = Some \<lparr>shape = [1, 192, 192], flat = replicate (192 * 192) 7\<rparr>"
  "map_of synthetic_sample ''label'' = Some \<lparr>shape = [1, 192, 192], flat = replicate (192 * 192) 1\<rparr>"
  by (simp_all add: synthetic_sample_def)

text \<open>
  C6. The pipeline applies its stages to a sample in the declared order: first the random
  crop to 150 x 150, with one crop position applied to the image and to the entry under
  the label key, then the resize to 224 x 224, which reads no draw, then the contrast
  adjustment, then the normalization with the supplied mean and standard deviation.
\<close>

theorem transforms_fixed_order:
  assumes "map_of s ''data'' = Some img" and "map_of s ''label'' = Some lab"
      and "shape img = [c, h, w]" and "shape lab = [c, h, w]"
      and "150 \<le> h" and "150 \<le> w"
  shows "Compose_call K R (transforms m sd) s =
           Option.bind (Option.bind (Option.bind
             (transform_call K R (RandomCropTransform (150, 150) ''label'') s)
             (transform_call K R (ResizeTransform (224, 224) ''label'')))
             (transform_call K R ContrastAugmentationTransform))
             (transform_call K R (MeanStdNormalizationTransform [m] [sd]))
       \<and> (\<exists>off img' lab'.
             crop_offsets (150, 150) (h, w) (crop_draw R) = Some off
           \<and> crop_array (150, 150) off img = Some img'
           \<and> crop_array (150, 150) off lab = Some lab'
           \<and> transform_call K R (RandomCropTransform (150, 150) ''label'') s =
               Some (AList.update ''label'' lab' (AList.update ''data'' img' s)))
       \<and> (\<forall>R' s'. transform_call K R' (ResizeTransform (224, 224) ''label'') s' =
                   transform_call K R (ResizeTransform (224, 224) ''label'') s')"
proof -
  from crop_stage [OF assms, where K = K and R = R] have
    "\<exists>off img' lab'.
         crop_offsets (150, 150) (h, w) (crop_draw R) = Some off
       \<and> crop_array (150, 150) off img = Some img'
       \<and> crop_array (150, 150) off lab = Some lab'
       \<and> transform_call K R (RandomCropTransform (150, 150) ''label'') s =
           Some (AList.update ''label'' lab' (AList.update ''data'' img' s))"
    by blast
  then show ?thesis
    by (simp add: Compose_transforms)
qed

theorem transforms_fixed_order_witness:
  "map_of synthetic_sample ''data'' = Some \<lparr>shape = [1, 192, 192], flat = replicate (192 * 192) 7\<rparr>
   \<and> map_of synthetic_sample ''label'' = Some \<lparr>shape = [1, 192, 192], flat = replicate (192 * 192) 1\<rparr>
   \<and> (150::nat) \<le> 192
   \<and> crop_offsets (150, 150) (192, 192) (crop_draw example_draws) = Some (11, 17)
   \<and> (\<exists>img' lab'.
         crop_array (150, 150) (11, 17) \<lparr>shape = [1, 192, 192], flat = replicate (192 * 192) 7\<rparr> = Some img'
       \<and> crop_array (150, 150) (11, 17) \<lparr>shape = [1, 192, 192], flat = replicate (192 * 192) 1\<rparr> = Some lab'
       \<and> transform_call int_kernels example_draws (RandomCropTransform (150, 150) ''label'') synthetic_sample =
           Some (AList.update ''label'' lab' (AList.update ''data'' img' synthetic_sample)))"
proof -
  have sh: "shape \<lparr>shape = [1, 192, 192], flat = replicate (192 * 192) (7::int)\<rparr> = [1, 192, 192]"
    "shape \<lparr>shape = [1, 192, 192], flat = replicate (192 * 192) (1::int)\<rparr> = [1, 192, 192]"
    by simp_all
  have le: "(150::nat) \<le> 192" by simp
  have off: "crop_offsets (150, 150) (192, 192) (crop_draw example_draws) = Some (11, 17)"
    by (simp add: example_draws_def)
  from transforms_fixed_order [OF synthetic_sample_entries sh le le,
      where K = int_kernels and R = example_draws and m = 7 and sd = 1]
    off synthetic_sample_entries le
  show ?thesis by auto
qed

text \<open>
  C7. For every sample (image and label of shape (1, h, w)) whose spatial size is at
  least the crop size 150 x 150, the pipeline returns a sample whose image and label have
  the spatial size 224 x 224 of the resize, whatever \<open>h\<close> and \<open>w\<close> are. Nothing is claimed
  about applying the pipeline twice.
\<close>

theorem transforms_output_size:
  assumes "map_of s ''data'' = Some img" and "map_of s ''label'' = Some lab"
      and "shape img = [1, h, w]" and "shape lab = [1, h, w]"
      and "150 \<le> h" and "150 \<le> w"
  shows "\<exists>out img' lab'. Compose_call K R (transforms m sd) s = Some out
       \<and> map_of out ''data'' = Some img' \<and> map_of out ''label'' = Some lab'
       \<and> shape img' = [1, 224, 224] \<and> shape lab' = [1, 224, 224]"
proof -
  from crop_stage [OF assms, where K = K and R = R] obtain img1 lab1 where
    s1: "transform_call K R (RandomCropTransform (150, 150) ''label'') s =
           Some (AList.update ''label'' lab1 (AList.update ''data'' img1 s))"
    and sh1: "shape img1 = [1, 150, 150]" "shape lab1 = [1, 150, 150]"
    by blast
  let ?s1 = "AList.update ''label'' lab1 (AList.update ''data'' img1 s)"
  have m1: "map_of ?s1 ''data'' = Some img1" "map_of ?s1 ''label'' = Some lab1"
    by (rule map_of_sample_update)+
  from resize_stage [OF m1 sh1, where K = K and R = R and th = 224 and tw = 224]
  obtain s2 img2 lab2 where
    s2: "transform_call K R (ResizeTransform (224, 224) ''label'') ?s1 = Some s2"
    and m2: "map_of s2 ''data'' = Some img2" "map_of s2 ''label'' = Some lab2"
    and sh2: "shape img2 = [1, 224, 224]" "shape lab2 = [1, 224, 224]"
    by blast
  from contrast_stage [OF m2 sh2(1), where K = K and R = R] obtain s3 img3 where
    s3: "transform_call K R ContrastAugmentationTransform s2 = Some s3"
    and m3: "map_of s3 ''data'' = Some img3" "map_of s3 ''label'' = Some lab2"
    and sh3: "shape img3 = [1, 224, 224]"
    by blast
  from normalize_stage [OF m3 sh3, where K = K and R = R and m = m and sd = sd] obtain s4 img4 where
    s4: "transform_call K R (MeanStdNormalizationTransform [m] [sd]) s3 = Some s4"
    and m4: "map_of s4 ''data'' = Some img4" "map_of s4 ''label'' = Some lab2"
    and sh4: "shape img4 = [1, 224, 224]"
    by blast
  have "Compose_call K R (transforms m sd) s = Some s4"
    by (simp only: Compose_transforms s1 s2 s3 s4 Option.bind.simps)
  with m4 sh4 sh2(2) show ?thesis
    by blast
qed

theorem transforms_output_size_witness:
  "read_sample synthetic_heap 2 = Some synthetic_sample
   \<and> map_of synthetic_sample ''data'' = Some \<lparr>shape = [1, 192, 192], flat = replicate (192 * 192) 7\<rparr>
   \<and> map_of synthetic_sample ''label'' = Some \<lparr>shape = [1, 192, 192], flat = replicate (192 * 192) 1\<rparr>
   \<and> (150::nat) \<le> 192
   \<and> (\<exists>out img' lab'.
         Compose_call int_kernels example_draws (transforms 7 1) synthetic_sample = Some out
       \<and> map_of out ''data'' = Some img' \<and> map_of out ''label'' = Some lab'
       \<and> shape img' = [1, 224, 224] \<and> shape lab' = [1, 224, 224])"
proof -
  have r: "read_sample synthetic_heap 2 = Some synthetic_sample"
    by (simp add: read_sample_def get_dict_def get_array_def synthetic_heap_def synthetic_sample_def)
  have sh: "shape \<lparr>shape = [1, 192, 192], flat = replicate (192 * 192) (7::int)\<rparr> = [1, 192, 192]"
    "shape \<lparr>shape = [1, 192, 192], flat = replicate (192 * 192) (1::int)\<rparr> = [1, 192, 192]"
    by simp_all
  have le: "(150::nat) \<le> 192" by simp
  from transforms_output_size [OF synthetic_sample_entries sh le le,
      where K = int_kernels and R = example_draws and m = 7 and sd = 1]
    r synthetic_sample_entries le
  show ?thesis by blast
qed

section \<open>Properties of the data managers\<close>

lemma upto_0_9: "[0..(9::int)] = [0, 1, 2, 3, 4, 5, 6, 7, 8, 9]"
  by (simp add: upto_rec1)

lemma batches_of_4_10:
  "batches_of 4 [0, 1, 2, 3, 4, 5, 6, 7, 8, 9::int] = [[0, 1, 2, 3], [4, 5, 6, 7], [8, 9]]"
  by (simp add: batches_of.simps)

lemma batches_of_Nil: "batches_of bs [] = []"
  by (simp add: batches_of.simps)

lemma batches_of_step:
  "0 < bs \<Longrightarrow> xs \<noteq> [] \<Longrightarrow> batches_of bs xs = take bs xs # batches_of bs (drop bs xs)"
  by (subst batches_of.simps) simp

lemma concat_batches_of: "0 < bs \<Longrightarrow> concat (batches_of bs xs) = xs"
proof (induction bs xs rule: batches_of.induct)
  case (1 bs xs)
  then show ?case
    by (cases "xs = []") (simp_all add: batches_of_Nil batches_of_step)
qed

lemma length_batches_of: "0 < bs \<Longrightarrow> length (batches_of bs xs) = (length xs + bs - 1) div bs"
proof (induction bs xs rule: batches_of.induct)
  case (1 bs xs)
  show ?case
  proof (cases "xs = []")
    case True
    with 1(2) show ?thesis by (simp add: batches_of_Nil)
  next
    case False
    with 1 have ih: "length (batches_of bs (drop bs xs)) = (length xs - bs + bs - 1) div bs"
      by simp
    from False have pos: "0 < length xs" by simp
    with 1(2) have "bs \<le> length xs + bs - 1" by linarith
    with 1(2) have "(length xs + bs - 1) div bs = Suc ((length xs + bs - 1 - bs) div bs)"
      by (rule le_div_geq)
    then have step: "(length xs + bs - 1) div bs = Suc ((length xs - 1) div bs)"
      by simp
    have "(length xs - bs + bs - 1) div bs = (length xs - 1) div bs"
    proof (cases "length xs \<le> bs")
      case True
      with pos 1(2) show ?thesis by simp
    next
      case False
      then show ?thesis by simp
    qed
    with ih step False 1(2) show ?thesis
      by (simp add: batches_of_step)
  qed
qed

text \<open>
  C8. A manager with batch size 4 over a dataset of 10 samples and the sequential sampler
  yields in a pass exactly 3 batches (the ceiling of 10 / 4), of sizes 4, 4 and 2, and
  their indices are 0 to 9 in ascending order.
\<close>

theorem sequential_batches_of_four_over_ten:
  "batch_indices shuffle (BaseDataManager \<lparr>data = d, num_samples = 10\<rparr> 4 tfs SequentialSampler np) h
     = [[0, 1, 2, 3], [4, 5, 6, 7], [8, 9]]
   \<and> length (batches K R shuffle (BaseDataManager \<lparr>data = d, num_samples = 10\<rparr> 4 tfs SequentialSampler np) h)
     = 3
   \<and> map length (batches K R shuffle (BaseDataManager \<lparr>data = d, num_samples = 10\<rparr> 4 tfs SequentialSampler np) h)
     = [4, 4, 2]
   \<and> (10 + 4 - 1) div 4 = (3::nat)"
  by (simp add: CustomDataset_len_def sampler_indices_def upto_0_9 batches_of_4_10)

end
